theory Spec2Isabelle
  imports Main "HOL-Library.Sublist" "HOL-Library.Word"
begin

section \<open>Common values\<close>

text \<open>
  Go strings and byte slices are byte sequences: they are modelled as \<open>string\<close>
  (a list of 8-bit \<open>char\<close>), and a byte is read as a number with \<open>of_char\<close>.
  Go errors are values; \<open>WrapPrefix e p\<close> is go-errors' \<open>errors.WrapPrefix(e, p, 0)\<close>,
  whose message is the prefix, a colon and a blank, and the wrapped error's message.
\<close>

datatype go_error = Errorf string | WrapPrefix go_error string | EOF

fun Error :: "go_error \<Rightarrow> string" where
  "Error (Errorf msg) = msg"
| "Error (WrapPrefix e p) = p @ '': '' @ Error e"
| "Error EOF = ''EOF''"

section \<open>The syslog source (pkg/sources/syslog/syslog.go)\<close>

subsection \<open>Connection configuration\<close>

definition nilString :: string where
  "nilString = ''''"

record Syslog_conn =
  Protocol :: string
  ListenAddress :: string
  Format :: string
  TlsCert :: string
  TlsKey :: string

text \<open>
  \<open>verifyConnectionConfig\<close> mutates \<open>s.conn\<close> in place and returns an error or nil:
  the model returns the connection as it is left, and the error.
  The early return on UDP with TLS leaves the listen address and the format untouched.
\<close>

definition verifyConnectionConfig :: "Syslog_conn \<Rightarrow> Syslog_conn \<times> go_error option" where
  "verifyConnectionConfig conn =
     (let tlsEnabled = (TlsCert conn \<noteq> nilString \<or> TlsKey conn \<noteq> nilString);
          conn1 = (if Protocol conn = nilString
                   then (if tlsEnabled then conn\<lparr>Protocol := ''tcp''\<rparr>
                         else conn\<lparr>Protocol := ''udp''\<rparr>)
                   else conn)
      in if Protocol conn1 = ''udp'' \<and> tlsEnabled
         then (conn1, Some (Errorf ''TLS is not supported over UDP''))
         else
           (let conn2 = (if ListenAddress conn1 = nilString
                         then conn1\<lparr>ListenAddress := '':5140''\<rparr> else conn1);
                conn3 = (if Format conn2 = nilString
                         then conn2\<lparr>Format := ''rfc3164''\<rparr> else conn2)
            in (conn3, None)))"

subsection \<open>The source and its initialisation\<close>

datatype SourceType = SOURCE_TYPE_SYSLOG

record Syslog_meta =
  Hostname :: string
  Appname :: string
  Procid :: string
  Timestamp :: string
  Facility :: string
  Client :: string

datatype MetaData = MetaData_Syslog Syslog_meta

text \<open>
  The \<open>Syslog\<close> helper struct; its \<open>sourceMetadataFunc\<close> is the closure \<open>Init\<close> builds,
  and its weighted semaphore is kept as its capacity.
\<close>

record Syslog =
  sourceType :: SourceType
  sourceName :: string
  sourceID :: "64 word"
  jobID :: "64 word"
  verify_flag :: bool
  concurrency :: int

definition sourceMetadataFunc ::
  "string \<Rightarrow> string \<Rightarrow> string \<Rightarrow> string \<Rightarrow> string \<Rightarrow> string \<Rightarrow> MetaData" where
  "sourceMetadataFunc hostname appname procID timestamp facility client =
     MetaData_Syslog \<lparr>Hostname = hostname, Appname = appname, Procid = procID,
       Timestamp = timestamp, Facility = facility, Client = client\<rparr>"

definition NewSyslog ::
  "SourceType \<Rightarrow> 64 word \<Rightarrow> 64 word \<Rightarrow> string \<Rightarrow> bool \<Rightarrow> int \<Rightarrow> Syslog" where
  "NewSyslog st jid sid nm vfy conc =
     \<lparr>sourceType = st, sourceName = nm, sourceID = sid, jobID = jid,
      verify_flag = vfy, concurrency = conc\<rparr>"

record Source =
  name :: string
  sourceId :: "64 word"
  jobId :: "64 word"
  verify :: bool
  syslog :: "Syslog option"
  conn :: "Syslog_conn option"

definition Type :: SourceType where
  "Type = SOURCE_TYPE_SYSLOG"

text \<open>
  \<open>Init\<close>. The connection arrives as a protobuf \<open>Any\<close>; decoding it is the protobuf
  library's work, so the model takes the outcome of \<open>anypb.UnmarshalTo\<close>: the decoded
  connection or the decoder's error. \<open>numCPU\<close> is \<open>runtime.NumCPU()\<close>.
  The model returns the source as \<open>Init\<close> leaves it, and the returned error.
\<close>

definition Init ::
  "Source \<Rightarrow> string \<Rightarrow> 64 word \<Rightarrow> 64 word \<Rightarrow> bool \<Rightarrow> go_error + Syslog_conn \<Rightarrow> int \<Rightarrow> Source \<times> go_error option" where
  "Init s nm jid sid vfy connection numCPU =
     (let s1 = s\<lparr>name := nm, sourceId := sid, jobId := jid, verify := vfy\<rparr>
      in case connection of
           Inl err \<Rightarrow> (s1, Some (WrapPrefix err ''error unmarshalling connection''))
         | Inr c \<Rightarrow>
             (case verifyConnectionConfig c of
                (c', Some err) \<Rightarrow> (s1\<lparr>conn := Some c'\<rparr>, Some (WrapPrefix err ''invalid configuration''))
              | (c', None) \<Rightarrow>
                  (s1\<lparr>conn := Some c',
                      syslog := Some (NewSyslog Type jid sid nm vfy numCPU)\<rparr>, None)))"

subsection \<open>Chunks and metadata parsing\<close>

record Chunk =
  SourceName :: string
  SourceID :: "64 word"
  JobID :: "64 word"
  SourceType :: "SourceType option"
  SourceMetadata :: "MetaData option"
  Data :: string
  Verify :: bool

text \<open>
  The two syslog parsers are libraries outside the repository
  (crewjam/rfc5424 and bill-rich/go-syslog); the model takes them as parameters.
  A parser returns its error or the fields \<open>parseSyslogMetadata\<close> reads.
  Times are kept as the library hands them over, with \<open>Time_String\<close> for
  \<open>time.Time.String()\<close>.
\<close>

type_synonym gotime = int

record rfc5424_Message =
  msg_Hostname :: string
  msg_AppName :: string
  msg_ProcessID :: string
  msg_Timestamp :: gotime

record rfc3164_Dump =
  dump_hostname :: string
  dump_timestamp :: gotime
  dump_facility :: int

record syslog_env =
  UnmarshalBinary :: "string \<Rightarrow> go_error + rfc5424_Message"
  rfc3164_Parse :: "string \<Rightarrow> go_error + rfc3164_Dump"
  Time_String :: "gotime \<Rightarrow> string"

text \<open>\<open>strconv.Itoa\<close>: the decimal rendering of an integer.\<close>

definition digit_char :: "nat \<Rightarrow> char" where
  "digit_char d = char_of (48 + d)"

fun nat_digits :: "nat \<Rightarrow> string" where
  "nat_digits n = (if n < 10 then [digit_char n] else nat_digits (n div 10) @ [digit_char (n mod 10)])"

definition Itoa :: "int \<Rightarrow> string" where
  "Itoa i = (if i < 0 then CHR ''-'' # nat_digits (nat (- i)) else nat_digits (nat i))"

text \<open>
  \<open>parseSyslogMetadata\<close> returns the pair (metadata, error). The metadata is a pointer
  that starts nil and is assigned only after a successful parse: \<open>None\<close> is the nil
  pointer. A format other than the two named ones falls through the switch.
  The source dereferences \<open>s.conn\<close> and \<open>s.syslog\<close>; both are set by a successful \<open>Init\<close>,
  and the model takes the format from the connection the caller passes.
\<close>

definition parseSyslogMetadata ::
  "syslog_env \<Rightarrow> Syslog_conn \<Rightarrow> string \<Rightarrow> string \<Rightarrow> MetaData option \<times> go_error option" where
  "parseSyslogMetadata env c input remote =
     (if Format c = ''rfc5424'' then
        (case UnmarshalBinary env input of
           Inl err \<Rightarrow> (None, Some (WrapPrefix err ''could not parse syslog as rfc5424''))
         | Inr message \<Rightarrow>
             (Some (sourceMetadataFunc (msg_Hostname message) (msg_AppName message)
                      (msg_ProcessID message) (Time_String env (msg_Timestamp message))
                      nilString remote), None))
      else if Format c = ''rfc3164'' then
        (case rfc3164_Parse env input of
           Inl err \<Rightarrow> (None, Some (WrapPrefix err ''could not parse syslog as rfc3164''))
         | Inr d \<Rightarrow>
             (Some (sourceMetadataFunc (dump_hostname d) nilString nilString
                      (Time_String env (dump_timestamp d)) (Itoa (dump_facility d)) remote), None))
      else (None, None))"

subsection \<open>The read loops\<close>

text \<open>
  A read fills the front of the buffer and leaves the rest as it was: \<open>make([]byte, n)\<close>
  is \<open>n\<close> zero bytes, and both loops pass the whole buffer on, whatever count the read
  returned (the count is discarded in the source).
\<close>

definition make_bytes :: "nat \<Rightarrow> string" where
  "make_bytes n = replicate n (CHR 0x00)"

definition read_into :: "string \<Rightarrow> string \<Rightarrow> string" where
  "read_into buf received = take (length buf) received @ drop (length received) buf"

text \<open>
  Both loops run until the context is done or the peer closes. What the outside world
  does is a script of events, one per loop iteration: the context is found done, or
  the read returns data, end of file, or another error. A loop that has consumed the
  whole script has not returned: its return value is \<open>None\<close>; \<open>Some r\<close> is a return
  with error value \<open>r\<close>. The chunks are those sent on the channel, in order.
\<close>

datatype net_event =
    CtxDone
  | ReadData string string
  | ReadEOF
  | ReadError

definition mk_chunk :: "Source \<Rightarrow> Syslog \<Rightarrow> MetaData option \<Rightarrow> string \<Rightarrow> Chunk" where
  "mk_chunk s sl metadata input =
     \<lparr>SourceName = sourceName sl, SourceID = sourceID sl, JobID = 0,
      SourceType = Some (sourceType sl), SourceMetadata = metadata,
      Data = input, Verify = verify s\<rparr>"

fun acceptUDPConnections ::
  "syslog_env \<Rightarrow> Source \<Rightarrow> Syslog_conn \<Rightarrow> Syslog \<Rightarrow> net_event list \<Rightarrow> Chunk list \<times> go_error option option" where
  "acceptUDPConnections env s c sl [] = ([], None)"
| "acceptUDPConnections env s c sl (CtxDone # evs) = ([], Some None)"
| "acceptUDPConnections env s c sl (ReadEOF # evs) = ([], Some None)"
| "acceptUDPConnections env s c sl (ReadError # evs) = acceptUDPConnections env s c sl evs"
| "acceptUDPConnections env s c sl (ReadData packet remote # evs) =
     (let input = read_into (make_bytes 65535) packet;
          metadata = fst (parseSyslogMetadata env c input remote);
          r = acceptUDPConnections env s c sl evs
      in (mk_chunk s sl metadata input # fst r, snd r))"

text \<open>\<open>monitorConnection\<close> has no return value: \<open>True\<close> says that it returned.\<close>

fun monitorConnection ::
  "syslog_env \<Rightarrow> Source \<Rightarrow> Syslog_conn \<Rightarrow> Syslog \<Rightarrow> string \<Rightarrow> net_event list \<Rightarrow> Chunk list \<times> bool" where
  "monitorConnection env s c sl remote [] = ([], False)"
| "monitorConnection env s c sl remote (CtxDone # evs) = ([], True)"
| "monitorConnection env s c sl remote (ReadEOF # evs) = ([], True)"
| "monitorConnection env s c sl remote (ReadError # evs) = monitorConnection env s c sl remote evs"
| "monitorConnection env s c sl remote (ReadData bytes from # evs) =
     (let input = read_into (make_bytes 8096) bytes;
          metadata = fst (parseSyslogMetadata env c input remote);
          r = monitorConnection env s c sl remote evs
      in (mk_chunk s sl metadata input # fst r, snd r))"

section \<open>Library functions the detectors call\<close>

text \<open>\<open>strings.Contains\<close>: whether the second string occurs in the first.\<close>

fun Contains :: "string \<Rightarrow> string \<Rightarrow> bool" where
  "Contains [] substr = (substr = [])"
| "Contains (c # s) substr = (prefix substr (c # s) \<or> Contains s substr)"

text \<open>
  \<open>strings.TrimSpace\<close> on the ASCII white space (tab, line feed, vertical tab, form
  feed, carriage return, blank). Go also trims the white space of Unicode beyond ASCII,
  which is not modelled: what the detectors trim is a capture of an ASCII character class.
\<close>

definition isSpace :: "char \<Rightarrow> bool" where
  "isSpace c = ((of_char c :: nat) \<in> {9, 10, 11, 12, 13, 32})"

definition TrimSpace :: "string \<Rightarrow> string" where
  "TrimSpace s = rev (dropWhile isSpace (rev (dropWhile isSpace s)))"

subsection \<open>Regular expressions\<close>

text \<open>
  The patterns that the source files spell out in full are built from literals, counted
  repetitions of one character class, alternation, an optional group, the word boundary
  and one capture group. Go's regexp package returns the leftmost match, and among
  the matches at one start the one a backtracking search finds first; \<open>rmatch\<close> lists
  the matches at one position in that order. A position is the input before it
  (reversed, so its head is the previous byte), the rest of the input, and the capture.
  All classes and literals of these patterns are ASCII, so a match never starts or ends
  inside a multi-byte rune and matching byte by byte is matching rune by rune.
\<close>

type_synonym cclass = "(char \<times> char) list"

definition in_class :: "cclass \<Rightarrow> char \<Rightarrow> bool" where
  "in_class cl c = list_ex (\<lambda>(lo, hi). (of_char lo :: nat) \<le> of_char c \<and> (of_char c :: nat) \<le> of_char hi) cl"

datatype regex =
    Lit string
  | Rep cclass nat "nat option"
  | Cat regex regex
  | Alt regex regex
  | Opt regex
  | WordBoundary
  | Group regex

type_synonym rpos = "string \<times> string \<times> string option"

definition isWordChar :: "char \<Rightarrow> bool" where
  "isWordChar c = in_class [(CHR ''A'', CHR ''Z''), (CHR ''a'', CHR ''z''), (CHR ''0'', CHR ''9''), (CHR ''_'', CHR ''_'')] c"

fun is_word_at :: "string \<Rightarrow> bool" where
  "is_word_at [] = False"
| "is_word_at (c # s) = isWordChar c"

fun rmatch :: "regex \<Rightarrow> rpos \<Rightarrow> rpos list" where
  "rmatch (Lit l) (b, r, g) = (if prefix l r then [(rev l @ b, drop (length l) r, g)] else [])"
| "rmatch (Rep cl lo hi) (b, r, g) =
     (let k = length (takeWhile (in_class cl) r);
          top = (case hi of None \<Rightarrow> k | Some h \<Rightarrow> min k h)
      in map (\<lambda>n. (rev (take n r) @ b, drop n r, g)) (rev [lo ..< Suc top]))"
| "rmatch (Cat x y) p = concat (map (rmatch y) (rmatch x p))"
| "rmatch (Alt x y) p = rmatch x p @ rmatch y p"
| "rmatch (Opt x) p = rmatch x p @ [p]"
| "rmatch WordBoundary (b, r, g) = (if is_word_at b \<noteq> is_word_at r then [(b, r, g)] else [])"
| "rmatch (Group x) (b, r, g) =
     map (\<lambda>(b', r', g'). (b', r', Some (rev (take (length b' - length b) b')))) (rmatch x (b, r, g))"

text \<open>
  All matches, as \<open>Regexp.allMatches\<close> finds them: the leftmost match from the current
  position, then on from its end. An empty match is dropped when it sits at the end of
  the match before it, and the search moves one byte on. Each match is its text and
  its capture.
\<close>

function find_all :: "regex \<Rightarrow> bool \<Rightarrow> string \<Rightarrow> string \<Rightarrow> (string \<times> string option) list" where
  "find_all re prevEnd b r =
     (case rmatch re (b, r, None) of
        [] \<Rightarrow> (case r of [] \<Rightarrow> [] | c # r1 \<Rightarrow> find_all re False (c # b) r1)
      | (b', r', g) # others \<Rightarrow>
          (if length r' < length r
           then (take (length r - length r') r, g) # find_all re True b' r'
           else (if prevEnd then [] else [([], g)]) @
                (case r of [] \<Rightarrow> [] | c # r1 \<Rightarrow> find_all re False (c # b) r1)))"
  by pat_completeness auto
termination
  by (relation "measure (\<lambda>(re, prevEnd, b, r). length r)") auto

text \<open>\<open>FindAll(data, -1)\<close>, and \<open>FindAllStringSubmatch(data, -1)\<close> for a pattern with one
  capture group: the match and the group, empty when the group took no part.\<close>

definition FindAll :: "regex \<Rightarrow> string \<Rightarrow> string list" where
  "FindAll re data = map fst (find_all re False [] data)"

definition FindAllStringSubmatch :: "regex \<Rightarrow> string \<Rightarrow> string list list" where
  "FindAllStringSubmatch re data =
     map (\<lambda>(text, g). [text, (case g of None \<Rightarrow> [] | Some x \<Rightarrow> x)]) (find_all re False [] data)"

section \<open>Detectors\<close>

subsection \<open>Results, requests and the outside world\<close>

datatype DetectorType =
    DetectorType_AbuseIPDB
  | DetectorType_WalkScore
  | DetectorType_Okta
  | DetectorType_Verifier
  | DetectorType_PaypalOauth
  | DetectorType_CurrencyCloud
  | DetectorType_Text2Data

record Result =
  DetectorType :: DetectorType
  Raw :: string
  Redacted :: string
  Verified :: bool

record Request =
  Method :: string
  URL :: string
  Header :: "(string \<times> string) list"
  Body :: string

text \<open>A response: its status code, and what \<open>ioutil.ReadAll(res.Body)\<close> gives.\<close>

record Response =
  StatusCode :: int
  ReadAll :: "go_error + string"

text \<open>
  What a detector takes from outside its own file:
  \<^item> \<open>url_Parse\<close>: the error with which \<open>http.NewRequestWithContext\<close> refuses a URL, if any
    (the methods are the constants GET and POST, and the context is never nil);
  \<^item> \<open>client_Do\<close>: the HTTP client. Its answer may differ from call to call, so it is
    given the number of requests \<open>FromData\<close> has made before this one; \<open>Inl\<close> is a
    transport error;
  \<^item> \<open>IsKnownFalsePositive\<close>: \<open>detectors.IsKnownFalsePositive(., detectors.DefaultFalsePositives, true)\<close>;
  \<^item> \<open>b64_EncodeToString\<close> and \<open>Values_Encode\<close>: base64 and URL form encoding;
  \<^item> the compiled patterns built with \<open>detectors.PrefixRegex\<close>, which is not among the
    source files: each is its \<open>FindAllStringSubmatch(., -1)\<close>.
\<close>

record env =
  url_Parse :: "string \<Rightarrow> go_error option"
  client_Do :: "nat \<Rightarrow> Request \<Rightarrow> go_error + Response"
  IsKnownFalsePositive :: "string \<Rightarrow> bool"
  b64_EncodeToString :: "string \<Rightarrow> string"
  Values_Encode :: "(string \<times> string) list \<Rightarrow> string"
  abuseipdb_keyPat :: "string \<Rightarrow> string list list"
  walkscore_keyPat :: "string \<Rightarrow> string list list"
  verifier_keyPat :: "string \<Rightarrow> string list list"
  verifier_emailPat :: "string \<Rightarrow> string list list"
  currencycloud_keyPat :: "string \<Rightarrow> string list list"
  text2data_keyPat :: "string \<Rightarrow> string list list"

definition NewRequestWithContext :: "env \<Rightarrow> string \<Rightarrow> string \<Rightarrow> string \<Rightarrow> go_error + Request" where
  "NewRequestWithContext e method url payload =
     (case url_Parse e url of
        Some err \<Rightarrow> Inl err
      | None \<Rightarrow> Inr \<lparr>Method = method, URL = url, Header = [], Body = payload\<rparr>)"

definition Header_Add :: "Request \<Rightarrow> string \<Rightarrow> string \<Rightarrow> Request" where
  "Header_Add req k v = req\<lparr>Header := Header req @ [(k, v)]\<rparr>"

definition Header_Set :: "Request \<Rightarrow> string \<Rightarrow> string \<Rightarrow> Request" where
  "Header_Set req k v = req\<lparr>Header := filter (\<lambda>kv. fst kv \<noteq> k) (Header req) @ [(k, v)]\<rparr>"

text \<open>
  The state of a \<open>FromData\<close> loop: the results appended so far, and the requests sent so
  far (the effect of the call on the network). A loop body returns the state after its
  iteration: unchanged results for \<open>continue\<close>, one more result for \<open>append\<close>.
\<close>

type_synonym scan_state = "Result list \<times> Request list"

text \<open>
  Modelled from the spec: \<open>detectors.CleanResults\<close> is not among the source files. The
  specification says of it: within a single call, results are de-duplicated by raw; the
  cleaner keeps the verified version if any instance of a given raw value was verified,
  else one arbitrary unverified instance. The model keeps, for each raw value in order
  of first appearance, the first verified instance if there is one, else the first
  instance.
\<close>

fun CleanResults :: "Result list \<Rightarrow> Result list" where
  "CleanResults [] = []"
| "CleanResults (r # rs) =
     (case filter Verified (filter (\<lambda>x. Raw x = Raw r) (r # rs)) of
        [] \<Rightarrow> r
      | v # vs \<Rightarrow> v) # CleanResults (filter (\<lambda>x. Raw x \<noteq> Raw r) rs)"

subsection \<open>abuseipdb (pkg/detectors/abuseipdb/abuseipdb.go)\<close>

definition abuseipdb_Keywords :: "string list" where
  "abuseipdb_Keywords = [''abuseipdb'']"

definition abuseipdb_match :: "env \<Rightarrow> bool \<Rightarrow> scan_state \<Rightarrow> string list \<Rightarrow> scan_state" where
  "abuseipdb_match e vfy st match =
     (if length match \<noteq> 2 then st
      else
        (let resMatch = TrimSpace (match ! 1);
             s1 = \<lparr>DetectorType = DetectorType_AbuseIPDB, Raw = resMatch, Redacted = [], Verified = False\<rparr>;
             results = fst st; sent = snd st
         in if vfy then
              (case NewRequestWithContext e ''GET'' ''https://api.abuseipdb.com/api/v2/check?ipAddress=118.25.6.39'' [] of
                 Inl err \<Rightarrow> st
               | Inr req0 \<Rightarrow>
                   (let req = Header_Add req0 ''Key'' resMatch in
                    case client_Do e (length sent) req of
                      Inl err \<Rightarrow> (results @ [s1], sent @ [req])
                    | Inr res \<Rightarrow>
                        (case ReadAll res of
                           Inl err \<Rightarrow> (results @ [s1], sent @ [req])
                         | Inr bodyString \<Rightarrow>
                             (let validResponse = Contains bodyString ''ipAddress'' in
                              if StatusCode res \<ge> 200 \<and> StatusCode res < 300 then
                                (if validResponse
                                 then (results @ [s1\<lparr>Verified := True\<rparr>], sent @ [req])
                                 else (results @ [s1\<lparr>Verified := False\<rparr>], sent @ [req]))
                              else if IsKnownFalsePositive e resMatch then (results, sent @ [req])
                              else (results @ [s1], sent @ [req])))))
            else (results @ [s1], sent)))"

text \<open>\<open>FromData\<close> returns the results, the error, and (as the call's effect) the requests sent.\<close>

definition abuseipdb_FromData :: "env \<Rightarrow> bool \<Rightarrow> string \<Rightarrow> Result list \<times> go_error option \<times> Request list" where
  "abuseipdb_FromData e vfy data =
     (let st = foldl (abuseipdb_match e vfy) ([], []) (abuseipdb_keyPat e data)
      in (CleanResults (fst st), None, snd st))"

subsection \<open>walkscore (pkg/detectors/walkscore/walkscore.go, first package)\<close>

definition walkscore_Keywords :: "string list" where
  "walkscore_Keywords = [''walkscore'']"

definition walkscore_match :: "env \<Rightarrow> bool \<Rightarrow> scan_state \<Rightarrow> string list \<Rightarrow> scan_state" where
  "walkscore_match e vfy st match =
     (if length match \<noteq> 2 then st
      else
        (let resMatch = TrimSpace (match ! 1);
             s1 = \<lparr>DetectorType = DetectorType_WalkScore, Raw = resMatch, Redacted = [], Verified = False\<rparr>;
             results = fst st; sent = snd st
         in if vfy then
              (case NewRequestWithContext e ''GET''
                      (''https://transit.walkscore.com/transit/search/stops/?lat=47.6101359&lon=-122.3420567&wsapikey='' @ resMatch) [] of
                 Inl err \<Rightarrow> st
               | Inr req0 \<Rightarrow>
                   (let req = Header_Add req0 ''Content-Type'' ''application/json'' in
                    case client_Do e (length sent) req of
                      Inl err \<Rightarrow> (results @ [s1], sent @ [req])
                    | Inr res \<Rightarrow>
                        (case ReadAll res of
                           Inl err \<Rightarrow> (results, sent @ [req])
                         | Inr body \<Rightarrow>
                             (if (StatusCode res \<ge> 200 \<and> StatusCode res < 300) \<and> Contains body ''distance''
                              then (results @ [s1\<lparr>Verified := True\<rparr>], sent @ [req])
                              else if IsKnownFalsePositive e resMatch then (results, sent @ [req])
                              else (results @ [s1], sent @ [req])))))
            else (results @ [s1], sent)))"

definition walkscore_FromData :: "env \<Rightarrow> bool \<Rightarrow> string \<Rightarrow> Result list \<times> go_error option \<times> Request list" where
  "walkscore_FromData e vfy data =
     (let st = foldl (walkscore_match e vfy) ([], []) (walkscore_keyPat e data)
      in (CleanResults (fst st), None, snd st))"

subsection \<open>verifier (unnamed/part_001)\<close>

definition verifier_Keywords :: "string list" where
  "verifier_Keywords = [''verifier'']"

definition verifier_idMatch :: "env \<Rightarrow> bool \<Rightarrow> string \<Rightarrow> scan_state \<Rightarrow> string list \<Rightarrow> scan_state" where
  "verifier_idMatch e vfy resMatch st idMatch =
     (if length idMatch \<noteq> 2 then st
      else
        (let userPatMatch = TrimSpace (idMatch ! 1);
             s1 = \<lparr>DetectorType = DetectorType_Verifier, Raw = resMatch, Redacted = [], Verified = False\<rparr>;
             results = fst st; sent = snd st
         in if vfy then
              (case NewRequestWithContext e ''GET''
                      (''https://verifier.meetchopra.com/verify/'' @ userPatMatch @ ''?token='' @ resMatch) [] of
                 Inl err \<Rightarrow> st
               | Inr req \<Rightarrow>
                   (case client_Do e (length sent) req of
                      Inl err \<Rightarrow> (results @ [s1], sent @ [req])
                    | Inr res \<Rightarrow>
                        (if StatusCode res \<ge> 200 \<and> StatusCode res < 300
                         then (results @ [s1\<lparr>Verified := True\<rparr>], sent @ [req])
                         else if IsKnownFalsePositive e resMatch then (results, sent @ [req])
                         else (results @ [s1], sent @ [req]))))
            else (results @ [s1], sent)))"

definition verifier_match :: "env \<Rightarrow> bool \<Rightarrow> string list list \<Rightarrow> scan_state \<Rightarrow> string list \<Rightarrow> scan_state" where
  "verifier_match e vfy idMatches st match =
     (if length match \<noteq> 2 then st
      else foldl (verifier_idMatch e vfy (TrimSpace (match ! 1))) st idMatches)"

definition verifier_FromData :: "env \<Rightarrow> bool \<Rightarrow> string \<Rightarrow> Result list \<times> go_error option \<times> Request list" where
  "verifier_FromData e vfy data =
     (let matches = verifier_keyPat e data;
          idMatches = verifier_emailPat e data;
          st = foldl (verifier_match e vfy idMatches) ([], []) matches
      in (CleanResults (fst st), None, snd st))"

subsection \<open>paypaloauth (unnamed/part_002)\<close>

text \<open>
  The two patterns are spelled out in the file: a word boundary, a group of 7 (or 69)
  characters of the class, a hyphen, 72 (or 10) characters of the class, a word boundary.
  The class is letters, digits, underscore and dot.
\<close>

definition paypaloauth_class :: cclass where
  "paypaloauth_class =
     [(CHR ''A'', CHR ''Z''), (CHR ''a'', CHR ''z''), (CHR ''0'', CHR ''9''),
      (CHR ''_'', CHR ''_''), (CHR ''.'', CHR ''.'')]"

definition paypaloauth_idPat :: regex where
  "paypaloauth_idPat =
     Cat WordBoundary
       (Cat (Group (Cat (Rep paypaloauth_class 7 (Some 7))
                     (Cat (Lit ''-'') (Rep paypaloauth_class 72 (Some 72)))))
            WordBoundary)"

definition paypaloauth_keyPat :: regex where
  "paypaloauth_keyPat =
     Cat WordBoundary
       (Cat (Group (Cat (Rep paypaloauth_class 69 (Some 69))
                     (Cat (Lit ''-'') (Rep paypaloauth_class 10 (Some 10)))))
            WordBoundary)"

definition paypaloauth_Keywords :: "string list" where
  "paypaloauth_Keywords = [''paypal'']"

definition paypaloauth_idMatch :: "env \<Rightarrow> bool \<Rightarrow> string \<Rightarrow> scan_state \<Rightarrow> string list \<Rightarrow> scan_state" where
  "paypaloauth_idMatch e vfy resMatch st idMatch =
     (if length idMatch \<noteq> 2 then st
      else
        (let residMatch = TrimSpace (idMatch ! 1);
             s1 = \<lparr>DetectorType = DetectorType_PaypalOauth, Raw = resMatch, Redacted = [], Verified = False\<rparr>;
             results = fst st; sent = snd st
         in if vfy then
              (let data = residMatch @ '':'' @ resMatch;
                   encoded = b64_EncodeToString e data;
                   payload = ''grant_type=client_credentials''
               in case NewRequestWithContext e ''POST'' ''https://api-m.sandbox.paypal.com/v1/oauth2/token'' payload of
                    Inl err \<Rightarrow> st
                  | Inr req0 \<Rightarrow>
                      (let req = Header_Add (Header_Add (Header_Add (Header_Add req0
                                   ''Accept'' ''application/json'')
                                   ''Accept-Language'' ''en_US'')
                                   ''Content-Type'' ''application/x-www-form-urlencoded'')
                                   ''Authorization'' (''Basic '' @ encoded)
                       in case client_Do e (length sent) req of
                            Inl err \<Rightarrow> (results @ [s1], sent @ [req])
                          | Inr res \<Rightarrow>
                              (if StatusCode res \<ge> 200 \<and> StatusCode res < 300
                               then (results @ [s1\<lparr>Verified := True\<rparr>], sent @ [req])
                               else if IsKnownFalsePositive e resMatch then (results, sent @ [req])
                               else (results @ [s1], sent @ [req]))))
            else (results @ [s1], sent)))"

definition paypaloauth_match :: "env \<Rightarrow> bool \<Rightarrow> string list list \<Rightarrow> scan_state \<Rightarrow> string list \<Rightarrow> scan_state" where
  "paypaloauth_match e vfy idmatches st match =
     (if length match \<noteq> 2 then st
      else foldl (paypaloauth_idMatch e vfy (TrimSpace (match ! 1))) st idmatches)"

definition paypaloauth_FromData :: "env \<Rightarrow> bool \<Rightarrow> string \<Rightarrow> Result list \<times> go_error option \<times> Request list" where
  "paypaloauth_FromData e vfy data =
     (let matches = FindAllStringSubmatch paypaloauth_keyPat data;
          idmatches = FindAllStringSubmatch paypaloauth_idPat data;
          st = foldl (paypaloauth_match e vfy idmatches) ([], []) matches
      in (CleanResults (fst st), None, snd st))"

subsection \<open>okta (pkg/detectors/walkscore/walkscore.go, second package)\<close>

text \<open>
  The domain pattern: 1 to 40 characters of lower-case letters, digits and hyphen, the
  literal \<open>.okta\<close>, optionally \<open>preview\<close> or \<open>-emea\<close>, the literal \<open>.com\<close>. The token
  pattern: \<open>00\<close> and 40 characters of letters, digits, underscore and hyphen.
\<close>

definition okta_domainPat :: regex where
  "okta_domainPat =
     Cat (Rep [(CHR ''a'', CHR ''z''), (CHR ''0'', CHR ''9''), (CHR ''-'', CHR ''-'')] 1 (Some 40))
       (Cat (Lit ''.okta'')
          (Cat (Opt (Alt (Lit ''preview'') (Lit ''-emea''))) (Lit ''.com'')))"

definition okta_tokenPat :: regex where
  "okta_tokenPat =
     Cat (Lit ''00'')
       (Rep [(CHR ''a'', CHR ''z''), (CHR ''A'', CHR ''Z''), (CHR ''0'', CHR ''9''),
             (CHR ''_'', CHR ''_''), (CHR ''-'', CHR ''-'')] 40 (Some 40))"

definition okta_Keywords :: "string list" where
  "okta_Keywords = [''okta'']"

text \<open>
  One iteration of the inner loop of okta's \<open>FromData\<close>, for one token and one domain.
  Unlike the other detectors it returns from the function on a request error:
  \<open>Some err\<close> in the second component is that early return, with the results appended
  so far; \<open>None\<close> is the end of the iteration (\<open>continue\<close> or \<open>append\<close>).
\<close>

definition okta_domain :: "env \<Rightarrow> bool \<Rightarrow> string \<Rightarrow> scan_state \<Rightarrow> string \<Rightarrow> scan_state \<times> go_error option" where
  "okta_domain e vfy token st domain =
     (let s = \<lparr>DetectorType = DetectorType_Okta, Raw = token, Redacted = [], Verified = False\<rparr>;
          results = fst st; sent = snd st
      in if vfy then
           (let url = ''https://'' @ domain @ ''/api/v1/groups?limit=1'' in
            case NewRequestWithContext e ''GET'' url [] of
              Inl err \<Rightarrow> (st, Some err)
            | Inr req0 \<Rightarrow>
                (let req = Header_Set (Header_Set (Header_Set req0
                             ''Accept'' ''application/json'')
                             ''Content-Type'' ''application/json'')
                             ''Authorization'' (''SSWS '' @ token)
                 in case client_Do e (length sent) req of
                      Inl err \<Rightarrow> ((results, sent @ [req]), Some err)
                    | Inr resp \<Rightarrow>
                        (let s' = (if StatusCode resp \<ge> 200 \<and> StatusCode resp < 300
                                   then s\<lparr>Verified := True\<rparr> else s)
                         in if \<not> Verified s' \<and> IsKnownFalsePositive e (Raw s')
                            then ((results, sent @ [req]), None)
                            else ((results @ [s'], sent @ [req]), None))))
         else
           (if \<not> Verified s \<and> IsKnownFalsePositive e (Raw s)
            then (st, None)
            else ((results @ [s], sent), None)))"

text \<open>The two loops: over the domain matches for one token, and over the token matches.\<close>

fun okta_domains :: "env \<Rightarrow> bool \<Rightarrow> string \<Rightarrow> string list \<Rightarrow> scan_state \<Rightarrow> scan_state \<times> go_error option" where
  "okta_domains e vfy token [] st = (st, None)"
| "okta_domains e vfy token (domain # ds) st =
     (case okta_domain e vfy token st domain of
        (st', Some err) \<Rightarrow> (st', Some err)
      | (st', None) \<Rightarrow> okta_domains e vfy token ds st')"

fun okta_tokens :: "env \<Rightarrow> bool \<Rightarrow> string list \<Rightarrow> string list \<Rightarrow> scan_state \<Rightarrow> scan_state \<times> go_error option" where
  "okta_tokens e vfy domains [] st = (st, None)"
| "okta_tokens e vfy domains (token # ts) st =
     (case okta_domains e vfy token domains st of
        (st', Some err) \<Rightarrow> (st', Some err)
      | (st', None) \<Rightarrow> okta_tokens e vfy domains ts st')"

text \<open>okta returns its results as they are, without \<open>CleanResults\<close>.\<close>

definition okta_FromData :: "env \<Rightarrow> bool \<Rightarrow> string \<Rightarrow> Result list \<times> go_error option \<times> Request list" where
  "okta_FromData e vfy data =
     (case okta_tokens e vfy (FindAll okta_domainPat data) (FindAll okta_tokenPat data) ([], []) of
        (st, err) \<Rightarrow> (fst st, err, snd st))"

subsection \<open>currencycloud (unnamed/part_003, first package)\<close>

text \<open>
  The email pattern is spelled out in the file: a word boundary, a group of one or more
  characters of the class, an at sign, one or more of the class, a dot, one or more
  lower-case letters, a word boundary. The key pattern is built with \<open>PrefixRegex\<close>.
\<close>

definition currencycloud_class :: cclass where
  "currencycloud_class =
     [(CHR ''a'', CHR ''z''), (CHR ''A'', CHR ''Z''), (CHR ''0'', CHR ''9''),
      (CHR ''.'', CHR ''.''), (CHR ''_'', CHR ''_''), (CHR ''-'', CHR ''-'')]"

definition currencycloud_emailPat :: regex where
  "currencycloud_emailPat =
     Cat WordBoundary
       (Cat (Group (Cat (Rep currencycloud_class 1 None)
                     (Cat (Lit ''@'')
                        (Cat (Rep currencycloud_class 1 None)
                           (Cat (Lit ''.'') (Rep [(CHR ''a'', CHR ''z'')] 1 None))))))
            WordBoundary)"

definition currencycloud_Keywords :: "string list" where
  "currencycloud_Keywords = [''currencycloud'']"

definition currencycloud_emailmatch :: "env \<Rightarrow> bool \<Rightarrow> string \<Rightarrow> scan_state \<Rightarrow> string list \<Rightarrow> scan_state" where
  "currencycloud_emailmatch e vfy resMatch st emailmatch =
     (if length emailmatch \<noteq> 2 then st
      else
        (let resEmailMatch = TrimSpace (emailmatch ! 1);
             s1 = \<lparr>DetectorType = DetectorType_CurrencyCloud, Raw = resMatch, Redacted = [], Verified = False\<rparr>;
             results = fst st; sent = snd st
         in if vfy then
              (let payload = [CHR ''{'', CHR 0x22] @ ''login_id'' @ [CHR 0x22, CHR '':'', CHR 0x22] @ resEmailMatch @
                             [CHR 0x22, CHR '','', CHR 0x22] @ ''api_key'' @ [CHR 0x22, CHR '':'', CHR 0x22] @ resMatch @ [CHR 0x22]
               in case NewRequestWithContext e ''POST'' ''https://devapi.currencycloud.com/v2/authenticate/api'' payload of
                    Inl err \<Rightarrow> st
                  | Inr req0 \<Rightarrow>
                      (let req = Header_Add req0 ''Content-Type'' ''application/json'' in
                       case client_Do e (length sent) req of
                         Inl err \<Rightarrow> (results @ [s1], sent @ [req])
                       | Inr res \<Rightarrow>
                           (case ReadAll res of
                              Inl err \<Rightarrow> (results, sent @ [req])
                            | Inr body \<Rightarrow>
                                (if Contains body ''auth_token''
                                 then (results @ [s1\<lparr>Verified := True\<rparr>], sent @ [req])
                                 else if IsKnownFalsePositive e resMatch then (results, sent @ [req])
                                 else (results @ [s1], sent @ [req])))))
            else (results @ [s1], sent)))"

definition currencycloud_match :: "env \<Rightarrow> bool \<Rightarrow> string list list \<Rightarrow> scan_state \<Rightarrow> string list \<Rightarrow> scan_state" where
  "currencycloud_match e vfy emailMatches st match =
     (if length match \<noteq> 2 then st
      else foldl (currencycloud_emailmatch e vfy (TrimSpace (match ! 1))) st emailMatches)"

definition currencycloud_FromData :: "env \<Rightarrow> bool \<Rightarrow> string \<Rightarrow> Result list \<times> go_error option \<times> Request list" where
  "currencycloud_FromData e vfy data =
     (let matches = currencycloud_keyPat e data;
          emailMatches = FindAllStringSubmatch currencycloud_emailPat data;
          st = foldl (currencycloud_match e vfy emailMatches) ([], []) matches
      in (CleanResults (fst st), None, snd st))"

subsection \<open>text2data (unnamed/part_003, second package)\<close>

definition text2data_Keywords :: "string list" where
  "text2data_Keywords = [''text2data'']"

definition text2data_match :: "env \<Rightarrow> bool \<Rightarrow> scan_state \<Rightarrow> string list \<Rightarrow> scan_state" where
  "text2data_match e vfy st match =
     (if length match \<noteq> 2 then st
      else
        (let resMatch = TrimSpace (match ! 1);
             s1 = \<lparr>DetectorType = DetectorType_Text2Data, Raw = resMatch, Redacted = [], Verified = False\<rparr>;
             results = fst st; sent = snd st
         in if vfy then
              (let data = [(''DocumentText'', ''Excellent location, opposite a very large mall with wide variety of shops, restaurants and more.''),
                           (''PrivateKey'', resMatch)]
               in case NewRequestWithContext e ''POST'' ''http://api.text2data.com/v3/Analyze'' (Values_Encode e data) of
                    Inl err \<Rightarrow> st
                  | Inr req0 \<Rightarrow>
                      (let req = Header_Add (Header_Add req0 ''Accept'' ''application/json'')
                                   ''Content-Type'' ''application/x-www-form-urlencoded''
                       in case client_Do e (length sent) req of
                            Inl err \<Rightarrow> (results @ [s1], sent @ [req])
                          | Inr res \<Rightarrow>
                              (case ReadAll res of
                                 Inl errBody \<Rightarrow> (results @ [s1], sent @ [req])
                               | Inr bodyString \<Rightarrow>
                                   (let validResponse = Contains bodyString
                                          ([CHR 0x22] @ ''DocSentimentResultString'' @ [CHR 0x22, CHR '':'', CHR 0x22] @ ''positive'' @ [CHR 0x22])
                                    in if StatusCode res \<ge> 200 \<and> StatusCode res < 300 \<and> validResponse
                                       then (results @ [s1\<lparr>Verified := True\<rparr>], sent @ [req])
                                       else if IsKnownFalsePositive e resMatch then (results, sent @ [req])
                                       else (results @ [s1], sent @ [req])))))
            else (results @ [s1], sent)))"

definition text2data_FromData :: "env \<Rightarrow> bool \<Rightarrow> string \<Rightarrow> Result list \<times> go_error option \<times> Request list" where
  "text2data_FromData e vfy data =
     (let st = foldl (text2data_match e vfy) ([], []) (text2data_keyPat e data)
      in (CleanResults (fst st), None, snd st))"

subsection \<open>The keyword pre-filter\<close>

text \<open>
  Modelled from the spec: the scan engine that applies the pre-filter is not among the
  source files. The specification says: a chunk is a candidate for a detector iff its
  lowercased data contains at least one keyword; the engine lowercases (or byte-folds)
  the chunk once and does a substring check for any of the detector's keywords.
\<close>

definition lower_byte :: "char \<Rightarrow> char" where
  "lower_byte c = (if (65::nat) \<le> of_char c \<and> (of_char c :: nat) \<le> 90 then char_of (of_char c + (32::nat)) else c)"

definition ToLower :: "string \<Rightarrow> string" where
  "ToLower data = map lower_byte data"

definition is_candidate :: "string list \<Rightarrow> string \<Rightarrow> bool" where
  "is_candidate keywords data = list_ex (\<lambda>k. Contains (ToLower data) k) keywords"

section \<open>The UTF-8 sanitizer (unnamed/part_004)\<close>

text \<open>
  \<open>UTF8\<close> composes two functions of Go's standard library. \<open>utf8.DecodeRuneInString\<close>
  is modelled by the width it returns for a non-empty string, following its table of
  first bytes: an ASCII byte has width 1; a first byte that opens a sequence of 2, 3
  or 4 bytes has that width when the string is long enough, its second byte is in the
  range the first byte accepts and the later bytes are continuation bytes; anything
  else is an encoding error, which has width 1.
\<close>

definition RuneSelf :: nat where
  "RuneSelf = 0x80"

text \<open>The size a first byte announces and the range it accepts for the second byte;
  \<open>None\<close> for a byte that cannot start a sequence.\<close>

definition first_byte :: "nat \<Rightarrow> (nat \<times> nat \<times> nat) option" where
  "first_byte b =
     (if 0xC2 \<le> b \<and> b \<le> 0xDF then Some (2, 0x80, 0xBF)
      else if b = 0xE0 then Some (3, 0xA0, 0xBF)
      else if 0xE1 \<le> b \<and> b \<le> 0xEC then Some (3, 0x80, 0xBF)
      else if b = 0xED then Some (3, 0x80, 0x9F)
      else if 0xEE \<le> b \<and> b \<le> 0xEF then Some (3, 0x80, 0xBF)
      else if b = 0xF0 then Some (4, 0x90, 0xBF)
      else if 0xF1 \<le> b \<and> b \<le> 0xF3 then Some (4, 0x80, 0xBF)
      else if b = 0xF4 then Some (4, 0x80, 0x8F)
      else None)"

definition is_cont :: "char \<Rightarrow> bool" where
  "is_cont c = ((0x80::nat) \<le> of_char c \<and> (of_char c :: nat) \<le> 0xBF)"

text \<open>The width for the string \<open>c # s\<close> with a non-ASCII first byte \<open>c\<close>.\<close>

definition rune_width :: "char \<Rightarrow> string \<Rightarrow> nat" where
  "rune_width c s =
     (case first_byte (of_char c) of
        None \<Rightarrow> 1
      | Some (sz, lo, hi) \<Rightarrow>
          if length s + 1 < sz then 1
          else if \<not> (lo \<le> (of_char (s ! 0) :: nat) \<and> (of_char (s ! 0) :: nat) \<le> hi) then 1
          else if sz \<le> 2 then 2
          else if \<not> is_cont (s ! 1) then 1
          else if sz \<le> 3 then 3
          else if \<not> is_cont (s ! 2) then 1
          else 4)"





text \<open>\<open>utf8.ValidString\<close>: every byte is ASCII or part of a well-formed sequence.\<close>

fun ValidString :: "string \<Rightarrow> bool" where
  "ValidString [] = True"
| "ValidString (c # s) =
     (if (of_char c :: nat) < RuneSelf then ValidString s
      else (let wid = rune_width c s in wid \<noteq> 1 \<and> ValidString (drop (wid - 1) s)))"

section \<open>Concrete inputs\<close>

text \<open>The packets a read loop takes in before it returns: the events up to the first
  done context or end of file, read errors skipped.\<close>

fun packets_read :: "net_event list \<Rightarrow> string list" where
  "packets_read [] = []"
| "packets_read (CtxDone # evs) = []"
| "packets_read (ReadEOF # evs) = []"
| "packets_read (ReadError # evs) = packets_read evs"
| "packets_read (ReadData packet remote # evs) = packet # packets_read evs"

definition example_conn :: Syslog_conn where
  "example_conn = \<lparr>Protocol = ''udp'', ListenAddress = [], Format = [], TlsCert = ''cert'', TlsKey = []\<rparr>"

definition plain_conn :: Syslog_conn where
  "plain_conn = \<lparr>Protocol = [], ListenAddress = [], Format = [], TlsCert = [], TlsKey = []\<rparr>"

definition rfc3164_conn :: Syslog_conn where
  "rfc3164_conn = \<lparr>Protocol = ''udp'', ListenAddress = '':5140'', Format = ''rfc3164'', TlsCert = [], TlsKey = []\<rparr>"

definition example_source :: Source where
  "example_source = \<lparr>name = [], sourceId = 0, jobId = 0, verify = False, syslog = None, conn = None\<rparr>"

definition example_syslog :: Syslog where
  "example_syslog = NewSyslog SOURCE_TYPE_SYSLOG 1 2 ''syslog'' False 4"

definition failing_env :: syslog_env where
  "failing_env = \<lparr>UnmarshalBinary = (\<lambda>input. Inl (Errorf ''bad message'')),
     rfc3164_Parse = (\<lambda>input. Inl (Errorf ''bad message'')),
     Time_String = (\<lambda>t. [])\<rparr>"

section \<open>Properties of the syslog source\<close>

lemma verifyConnectionConfig_error:
  "snd (verifyConnectionConfig c) =
     (if Protocol c = ''udp'' \<and> (TlsCert c \<noteq> [] \<or> TlsKey c \<noteq> [])
      then Some (Errorf ''TLS is not supported over UDP'') else None)"
  by (cases "Protocol c = []"; cases "Protocol c = ''udp''"; cases "TlsCert c = []"; cases "TlsKey c = []";
      simp add: verifyConnectionConfig_def nilString_def Let_def)

lemma Init_error:
  "snd (Init s nm jid sid vfy (Inr c) numCPU) =
     map_option (\<lambda>err. WrapPrefix err ''invalid configuration'') (snd (verifyConnectionConfig c))"
proof (cases "verifyConnectionConfig c")
  case (Pair c' r)
  then show ?thesis
    by (cases r) (simp_all add: Init_def)
qed

text \<open>
  Claim C4, as the code has it. For a connection that decodes, \<open>Init\<close> fails on the
  protocol and TLS check exactly when the configured protocol is \<open>udp\<close> and a TLS
  certificate or key is present; the error is then \<open>TLS is not supported over UDP\<close>
  wrapped with the prefix \<open>invalid configuration\<close>. For every other combination of
  protocol and TLS material \<open>Init\<close> returns no error.
\<close>

theorem init_rejects_tls_over_udp:
  "snd (Init s nm jid sid vfy (Inr c) numCPU) =
     (if Protocol c = ''udp'' \<and> (TlsCert c \<noteq> [] \<or> TlsKey c \<noteq> [])
      then Some (WrapPrefix (Errorf ''TLS is not supported over UDP'') ''invalid configuration'')
      else None)"
  by (simp only: Init_error verifyConnectionConfig_error option.map if_distrib [of "map_option f" for f])

theorem init_rejects_tls_over_udp_witness:
  "map_option Error (snd (Init example_source ''src'' 1 2 False (Inr example_conn) 4)) =
     Some ''invalid configuration: TLS is not supported over UDP''
   \<and> snd (Init example_source ''src'' 1 2 False (Inr plain_conn) 4) = None
   \<and> snd (Init example_source ''src'' 1 2 False (Inr (plain_conn\<lparr>TlsKey := ''key''\<rparr>)) 4) = None
   \<and> snd (Init example_source ''src'' 1 2 False (Inr (plain_conn\<lparr>Protocol := ''tcp'', TlsKey := ''key''\<rparr>)) 4) = None"
  using init_rejects_tls_over_udp [of example_source "''src''" 1 2 False example_conn 4]
    init_rejects_tls_over_udp [of example_source "''src''" 1 2 False plain_conn 4]
    init_rejects_tls_over_udp [of example_source "''src''" 1 2 False "plain_conn\<lparr>TlsKey := ''key''\<rparr>" 4]
    init_rejects_tls_over_udp [of example_source "''src''" 1 2 False "plain_conn\<lparr>Protocol := ''tcp'', TlsKey := ''key''\<rparr>" 4]
  by (simp add: example_conn_def plain_conn_def)

text \<open>
  The message of claim C4 is not the code's: on UDP with a certificate, the error of
  \<open>verifyConnectionConfig\<close> reads \<open>TLS is not supported over UDP\<close>, and \<open>Init\<close> returns it
  behind the prefix \<open>invalid configuration\<close>.
\<close>

theorem init_message_counterexample:
  "map_option Error (snd (Init example_source ''src'' 1 2 False (Inr example_conn) 4)) =
     Some ''invalid configuration: TLS is not supported over UDP''
   \<and> map_option Error (snd (verifyConnectionConfig example_conn)) = Some ''TLS is not supported over UDP''
   \<and> ''invalid configuration: TLS is not supported over UDP'' \<noteq> ''TLS not supported over UDP''
   \<and> ''TLS is not supported over UDP'' \<noteq> ''TLS not supported over UDP''"
  by (simp add: Init_def verifyConnectionConfig_def example_conn_def nilString_def)




lemma length_read_into: "length (read_into buf received) = length buf"
  by (simp add: read_into_def)

lemma read_into_make_bytes:
  "read_into (make_bytes n) p = take n p @ replicate (n - length p) (CHR 0x00)"
  by (simp add: read_into_def make_bytes_def)

lemma length_make_bytes: "length (make_bytes n) = n"
  by (simp add: make_bytes_def)

lemma Data_mk_chunk: "Data (mk_chunk s sl m input) = input"
  by (simp add: mk_chunk_def)

lemma SourceMetadata_mk_chunk: "SourceMetadata (mk_chunk s sl m input) = m"
  by (simp add: mk_chunk_def)

text \<open>
  Claim C5, as the code has it. In UDP mode every packet read before the loop returns
  gives exactly one chunk, in order, and the chunk's data is the whole read buffer of
  65535 bytes: the first 65535 bytes of the packet, followed by zero bytes up to the
  length 65535 when the packet is shorter.
\<close>

theorem udp_one_chunk_per_packet:
  "map Data (fst (acceptUDPConnections env s c sl evs)) =
     map (\<lambda>p. take 65535 p @ replicate (65535 - length p) (CHR 0x00)) (packets_read evs)"
  by (induction env s c sl evs rule: acceptUDPConnections.induct)
     (simp_all add: Let_def Data_mk_chunk read_into_make_bytes)

theorem udp_one_chunk_per_packet_witness:
  "map Data (fst (acceptUDPConnections failing_env example_source rfc3164_conn example_syslog
      [ReadData ''A'' ''peer'', ReadError, ReadData ''BC'' ''peer'', CtxDone, ReadData ''D'' ''peer''])) =
     [CHR ''A'' # replicate 65534 (CHR 0x00), CHR ''B'' # CHR ''C'' # replicate 65533 (CHR 0x00)]"
  using udp_one_chunk_per_packet [of failing_env example_source rfc3164_conn example_syslog
      "[ReadData ''A'' ''peer'', ReadError, ReadData ''BC'' ''peer'', CtxDone, ReadData ''D'' ''peer'']"]
  by simp

text \<open>
  Claim C5 as it is written fails for a short packet: the data of the chunk for the
  one-byte packet \<open>A\<close> is that byte and 65534 zero bytes, not the packet's bytes.
\<close>

theorem udp_short_packet_counterexample:
  "map Data (fst (acceptUDPConnections failing_env example_source rfc3164_conn example_syslog
      [ReadData ''A'' ''peer''])) = [CHR ''A'' # replicate 65534 (CHR 0x00)]
   \<and> CHR ''A'' # replicate 65534 (CHR 0x00) \<noteq> ''A''
   \<and> length (CHR ''A'' # replicate 65534 (CHR 0x00)) = 65535"
  by (simp add: Let_def Data_mk_chunk read_into_make_bytes)

text \<open>
  Claim C9, as the code has it. Every chunk of a TCP connection carries a read buffer
  of exactly 8096 bytes, and every chunk of the UDP listener one of exactly 65535
  bytes.
\<close>

theorem read_buffer_sizes:
  "list_all (\<lambda>ch. length (Data ch) = 8096) (fst (monitorConnection env s c sl remote evs))
   \<and> list_all (\<lambda>ch. length (Data ch) = 65535) (fst (acceptUDPConnections env s c sl evs))"
proof
  show "list_all (\<lambda>ch. length (Data ch) = 8096) (fst (monitorConnection env s c sl remote evs))"
    by (induction env s c sl remote evs rule: monitorConnection.induct)
       (simp_all add: Let_def Data_mk_chunk length_read_into length_make_bytes)
  show "list_all (\<lambda>ch. length (Data ch) = 65535) (fst (acceptUDPConnections env s c sl evs))"
    by (induction env s c sl evs rule: acceptUDPConnections.induct)
       (simp_all add: Let_def Data_mk_chunk length_read_into length_make_bytes)
qed

theorem read_buffer_sizes_witness:
  "list_all (\<lambda>ch. length (Data ch) = 8096)
     (fst (monitorConnection failing_env example_source rfc3164_conn example_syslog ''peer''
        [ReadData ''A'' ''peer'', ReadData ''BC'' ''peer'', ReadEOF]))
   \<and> length (fst (monitorConnection failing_env example_source rfc3164_conn example_syslog ''peer''
        [ReadData ''A'' ''peer'', ReadData ''BC'' ''peer'', ReadEOF])) = 2
   \<and> list_all (\<lambda>ch. length (Data ch) = 65535)
     (fst (acceptUDPConnections failing_env example_source rfc3164_conn example_syslog
        [ReadData ''A'' ''peer'', CtxDone]))
   \<and> length (fst (acceptUDPConnections failing_env example_source rfc3164_conn example_syslog
        [ReadData ''A'' ''peer'', CtxDone])) = 1"
  using read_buffer_sizes [of failing_env example_source rfc3164_conn example_syslog "''peer''"
      "[ReadData ''A'' ''peer'', ReadData ''BC'' ''peer'', ReadEOF]"]
    read_buffer_sizes [of failing_env example_source rfc3164_conn example_syslog "''peer''"
      "[ReadData ''A'' ''peer'', CtxDone]"]
  by (simp add: Let_def)

text \<open>
  Claim C9 as it is written fails: the buffers are 8096 and 65535 bytes long, not
  8192 and 65536.
\<close>

theorem read_buffer_sizes_counterexample:
  "map (\<lambda>ch. length (Data ch))
     (fst (monitorConnection failing_env example_source rfc3164_conn example_syslog ''peer''
        [ReadData ''A'' ''peer''])) = [8096]
   \<and> map (\<lambda>ch. length (Data ch))
     (fst (acceptUDPConnections failing_env example_source rfc3164_conn example_syslog
        [ReadData ''A'' ''peer''])) = [65535]"
  by (simp add: Let_def Data_mk_chunk length_read_into length_make_bytes)

text \<open>
  Claim C6, as the code has it. When the configured format is rfc5424 or rfc3164 and
  its parser fails on the payload, \<open>parseSyslogMetadata\<close> returns the nil metadata and
  an error, and the loop (UDP or TCP) still emits the chunk, with nil metadata.
\<close>

theorem parse_failure_still_emits:
  "((Format c = ''rfc5424'' \<and> UnmarshalBinary env (read_into (make_bytes 65535) packet) = Inl err)
     \<or> (Format c = ''rfc3164'' \<and> rfc3164_Parse env (read_into (make_bytes 65535) packet) = Inl err)
    \<longrightarrow> fst (parseSyslogMetadata env c (read_into (make_bytes 65535) packet) remote) = None
      \<and> snd (parseSyslogMetadata env c (read_into (make_bytes 65535) packet) remote) \<noteq> None
      \<and> fst (acceptUDPConnections env s c sl (ReadData packet remote # evs)) =
          mk_chunk s sl None (read_into (make_bytes 65535) packet) # fst (acceptUDPConnections env s c sl evs))
   \<and> ((Format c = ''rfc5424'' \<and> UnmarshalBinary env (read_into (make_bytes 8096) packet) = Inl err)
     \<or> (Format c = ''rfc3164'' \<and> rfc3164_Parse env (read_into (make_bytes 8096) packet) = Inl err)
    \<longrightarrow> fst (monitorConnection env s c sl remote (ReadData packet peer # evs)) =
          mk_chunk s sl None (read_into (make_bytes 8096) packet) # fst (monitorConnection env s c sl remote evs))"
  by (auto simp: parseSyslogMetadata_def Let_def)

theorem parse_failure_still_emits_witness:
  "map SourceMetadata (fst (acceptUDPConnections failing_env example_source rfc3164_conn example_syslog
      [ReadData ''not syslog'' ''peer'', CtxDone])) = [None]
   \<and> map SourceMetadata (fst (monitorConnection failing_env example_source (rfc3164_conn\<lparr>Format := ''rfc5424''\<rparr>)
      example_syslog ''peer'' [ReadData ''not syslog'' ''peer'', ReadEOF])) = [None]"
  using parse_failure_still_emits [of rfc3164_conn failing_env "''not syslog''" "Errorf ''bad message''"
      "''peer''" example_source example_syslog "[CtxDone]" "''peer''"]
    parse_failure_still_emits [of "rfc3164_conn\<lparr>Format := ''rfc5424''\<rparr>" failing_env "''not syslog''" "Errorf ''bad message''"
      "''peer''" example_source example_syslog "[ReadEOF]" "''peer''"]
  by (simp add: failing_env_def rfc3164_conn_def SourceMetadata_mk_chunk)

text \<open>
  Claim C6 as it is written fails in its second half: after a failed parse the chunk's
  metadata is nil, not a syslog metadata record with empty fields.
\<close>

theorem parse_failure_metadata_counterexample:
  "map SourceMetadata (fst (acceptUDPConnections failing_env example_source rfc3164_conn example_syslog
      [ReadData ''not syslog'' ''peer''])) = [None]
   \<and> (None :: MetaData option) \<noteq>
       Some (MetaData_Syslog \<lparr>Hostname = [], Appname = [], Procid = [], Timestamp = [], Facility = [], Client = []\<rparr>)"
  by (simp add: Let_def parseSyslogMetadata_def failing_env_def rfc3164_conn_def SourceMetadata_mk_chunk)

section \<open>Properties of the UTF-8 sanitizer\<close>

lemma first_byte_Some:
  "first_byte b = Some (sz, lo, hi) \<Longrightarrow> (sz = 2 \<or> sz = 3 \<or> sz = 4) \<and> 0x80 \<le> lo \<and> 0xC2 \<le> b"
  by (auto simp: first_byte_def split: if_splits)

lemma rune_width_Nil: "rune_width c [] = 1"
  by (auto simp: rune_width_def split: option.splits dest: first_byte_Some)










lemma ValidString_invalid:
  "\<not> (of_char c :: nat) < RuneSelf \<Longrightarrow> rune_width c s = 1 \<Longrightarrow> \<not> ValidString (c # s)"
  by simp















end
